theory Spec2Isabelle
  imports Main "HOL-Library.Word"
begin

unbundle bit_operations_syntax

section \<open>ARP packet codec (packet.go)\<close>

subsection \<open>Data model\<close>

text \<open>
  Go's \<open>uint8\<close> and \<open>uint16\<close> are words: their arithmetic wraps around. A byte
  slice (\<open>[]byte\<close>, \<open>net.HardwareAddr\<close>, \<open>net.IP\<close>) is a list of bytes; the
  \<open>nil\<close> slice and the empty slice are both the empty list, as \<open>len\<close> and
  \<open>copy\<close> do not tell them apart. Go's \<open>int\<close> (lengths, offsets) is \<open>nat\<close>:
  every offset of the codec is below \<open>8 + 4 * 255\<close>.
\<close>

type_synonym byte = "8 word"
type_synonym uint16 = "16 word"

text \<open>
  The three error values the package returns (\<open>io.ErrUnexpectedEOF\<close> among them), and the
  run-time panic of an index or slice expression that is out of range.
\<close>

datatype failure = ErrInvalidHardwareAddr | ErrInvalidIP | ErrUnexpectedEOF | RuntimePanic

text \<open>\<open>type Operation uint16\<close> with its two named constants.\<close>

type_synonym Operation = uint16

definition OperationRequest :: Operation where
  "OperationRequest = 1"

definition OperationReply :: Operation where
  "OperationReply = 2"

record Packet =
  HardwareType :: uint16
  ProtocolType :: uint16
  HardwareAddrLength :: byte
  IPLength :: byte
  Operation :: Operation
  SenderHardwareAddr :: "byte list"
  SenderIP :: "byte list"
  TargetHardwareAddr :: "byte list"
  TargetIP :: "byte list"

text \<open>
  The data-model invariant: the declared lengths are the lengths of the stored address
  fields.
\<close>

definition valid :: "Packet \<Rightarrow> bool" where
  "valid p =
     (length (SenderHardwareAddr p) = unat (HardwareAddrLength p) \<and>
      length (TargetHardwareAddr p) = unat (HardwareAddrLength p) \<and>
      length (SenderIP p) = unat (IPLength p) \<and>
      length (TargetIP p) = unat (IPLength p))"

subsection \<open>Library functions the codec calls\<close>

text \<open>
  \<open>ethernet.EtherTypeIPv4\<close> of the imported ethernet package, the EtherType of IPv4.
\<close>

definition EtherTypeIPv4 :: uint16 where
  "EtherTypeIPv4 = 0x0800"

text \<open>
  \<open>net.IP.To4\<close> of Go's standard library: a 4-byte slice is returned as it is, a 16-byte
  slice that is an IPv4-mapped IPv6 address (ten zero bytes, then \<open>ff ff\<close>) gives its last
  four bytes, anything else gives \<open>nil\<close> (here \<open>None\<close>).
\<close>

definition isZeros :: "byte list \<Rightarrow> bool" where
  "isZeros p = list_all (\<lambda>x. x = 0) p"

definition To4 :: "byte list \<Rightarrow> byte list option" where
  "To4 ip =
     (if length ip = 4 then Some ip
      else if length ip = 16 \<and> isZeros (take 10 ip) \<and> ip ! 10 = 0xff \<and> ip ! 11 = 0xff
        then Some (take 4 (drop 12 ip))
      else None)"

text \<open>
  \<open>binary.BigEndian.Uint16(b[lo:lo+2])\<close>, read where the caller has checked
  \<open>lo + 2 \<le> len(b)\<close>.
\<close>

definition Uint16 :: "byte list \<Rightarrow> nat \<Rightarrow> uint16" where
  "Uint16 b lo = ucast (b ! (lo + 1)) OR push_bit 8 (ucast (b ! lo))"

text \<open>
  \<open>binary.BigEndian.PutUint16(b[lo:lo+2], v)\<close>: the slice expression panics unless
  \<open>lo + 2 \<le> cap(b)\<close>; the buffer is fresh from \<open>make\<close>, so its capacity is its length.
\<close>

definition PutUint16 :: "byte list \<Rightarrow> nat \<Rightarrow> uint16 \<Rightarrow> failure + byte list" where
  "PutUint16 b lo v =
     (if lo + 2 \<le> length b
      then Inr (b[lo := ucast (drop_bit 8 v), lo + 1 := ucast v])
      else Inl RuntimePanic)"

text \<open>\<open>b[i] = v\<close>: panics unless \<open>i < len(b)\<close>.\<close>

definition set_index :: "byte list \<Rightarrow> nat \<Rightarrow> byte \<Rightarrow> failure + byte list" where
  "set_index b i v = (if i < length b then Inr (b[i := v]) else Inl RuntimePanic)"

text \<open>
  \<open>copy(b[lo:hi], src)\<close>: the slice expression panics unless \<open>lo \<le> hi \<le> cap(b)\<close>;
  \<open>copy\<close> then moves \<open>min(hi - lo, len(src))\<close> bytes and leaves the rest of \<open>b\<close> alone.
\<close>

definition copy_to :: "byte list \<Rightarrow> nat \<Rightarrow> nat \<Rightarrow> byte list \<Rightarrow> failure + byte list" where
  "copy_to b lo hi src =
     (if lo \<le> hi \<and> hi \<le> length b
      then (let k = min (hi - lo) (length src)
            in Inr (take lo b @ take k src @ drop (lo + k) b))
      else Inl RuntimePanic)"

text \<open>
  \<open>d := make([]byte, n); copy(d, b[lo:hi])\<close>, where the caller has checked
  \<open>lo \<le> hi \<le> len(b)\<close>: a fresh slice of \<open>n\<close> bytes, zero where the source is shorter.
\<close>

definition make_copy :: "nat \<Rightarrow> byte list \<Rightarrow> nat \<Rightarrow> nat \<Rightarrow> byte list" where
  "make_copy n b lo hi =
     (let src = take (hi - lo) (drop lo b); k = min n (length src)
      in take k src @ replicate (n - k) 0)"

text \<open>Sequencing of steps that can fail: the first failure ends the function.\<close>

definition and_then :: "failure + 'a \<Rightarrow> ('a \<Rightarrow> failure + 'b) \<Rightarrow> failure + 'b" where
  "and_then r f = (case r of Inl e \<Rightarrow> Inl e | Inr x \<Rightarrow> f x)"

subsection \<open>NewPacket\<close>

text \<open>
  The checks in the order of the source. \<open>uint8(len(srcHW))\<close> keeps the low eight bits of
  the length.
\<close>

definition NewPacket ::
  "Operation \<Rightarrow> byte list \<Rightarrow> byte list \<Rightarrow> byte list \<Rightarrow> byte list \<Rightarrow> failure + Packet" where
  "NewPacket op srcHW srcIP dstHW dstIP =
     (if length srcHW < 6 then Inl ErrInvalidHardwareAddr
      else if length dstHW < 6 then Inl ErrInvalidHardwareAddr
      else if length srcHW \<noteq> length dstHW then Inl ErrInvalidHardwareAddr
      else (case To4 srcIP of
              None \<Rightarrow> Inl ErrInvalidIP
            | Some srcIP4 \<Rightarrow>
                (case To4 dstIP of
                   None \<Rightarrow> Inl ErrInvalidIP
                 | Some dstIP4 \<Rightarrow>
                     Inr \<lparr>HardwareType = 1,
                          ProtocolType = EtherTypeIPv4,
                          HardwareAddrLength = of_nat (length srcHW),
                          IPLength = of_nat (length srcIP4),
                          Operation = op,
                          SenderHardwareAddr = srcHW,
                          SenderIP = srcIP4,
                          TargetHardwareAddr = dstHW,
                          TargetIP = dstIP4\<rparr>)))"

subsection \<open>MarshalBinary\<close>

text \<open>
  The size of the buffer is the \<open>uint8\<close> expression
  \<open>2+2+1+1+2+4+4+(p.HardwareAddrLength*2)\<close>: the constants fold to 16, and the product and
  the sum are taken in eight bits.
\<close>

definition marshal_size :: "Packet \<Rightarrow> nat" where
  "marshal_size p = unat (2 + 2 + 1 + 1 + 2 + 4 + 4 + (HardwareAddrLength p * 2))"

definition MarshalBinary :: "Packet \<Rightarrow> failure + byte list" where
  "MarshalBinary p =
     (let b = replicate (marshal_size p) 0;
          hal = unat (HardwareAddrLength p);
          pl = unat (IPLength p)
      in
        and_then (PutUint16 b 0 (HardwareType p)) (\<lambda>b.
        and_then (PutUint16 b 2 (ProtocolType p)) (\<lambda>b.
        and_then (set_index b 4 (HardwareAddrLength p)) (\<lambda>b.
        and_then (set_index b 5 (IPLength p)) (\<lambda>b.
        and_then (PutUint16 b 6 (Operation p)) (\<lambda>b.
        and_then (copy_to b 8 (8 + hal) (SenderHardwareAddr p)) (\<lambda>b.
        and_then (copy_to b (8 + hal) (8 + hal + pl) (SenderIP p)) (\<lambda>b.
        and_then (copy_to b (8 + hal + pl) (8 + hal + pl + hal) (TargetHardwareAddr p)) (\<lambda>b.
        and_then (copy_to b (8 + hal + pl + hal) (8 + hal + pl + hal + pl) (TargetIP p)) (\<lambda>b.
        Inr b))))))))))"

subsection \<open>UnmarshalBinary\<close>

text \<open>
  The method writes through its receiver, so the model takes the Packet as it was before
  the call and returns the error (\<open>None\<close> for \<open>nil\<close>) with the Packet as it is after.
  The fixed header is stored into the receiver before the second length check. Every
  index and slice expression is in range by the length check above it: the header reads
  after \<open>8 \<le> len(b)\<close>, the four slices after \<open>8 + 2*ml + 2*il \<le> len(b)\<close>.
\<close>

definition UnmarshalBinary :: "Packet \<Rightarrow> byte list \<Rightarrow> failure option \<times> Packet" where
  "UnmarshalBinary p b =
     (if length b < 8 then (Some ErrUnexpectedEOF, p)
      else
        let p = p\<lparr>HardwareType := Uint16 b 0,
                  ProtocolType := Uint16 b 2,
                  HardwareAddrLength := b ! 4,
                  IPLength := b ! 5,
                  Operation := Uint16 b 6\<rparr>;
            ml = unat (HardwareAddrLength p);
            il = unat (IPLength p)
        in
          if length b < 8 + (2 * ml) + (2 * il) then (Some ErrUnexpectedEOF, p)
          else
            (None,
             p\<lparr>SenderHardwareAddr := make_copy ml b 8 (8 + ml),
               SenderIP := make_copy il b (8 + ml) (8 + ml + il),
               TargetHardwareAddr := make_copy ml b (8 + ml + il) (8 + ml + il + ml),
               TargetIP := make_copy il b (8 + ml + il + ml) (8 + ml + il + ml + il)\<rparr>))"

subsection \<open>The wire layout\<close>

text \<open>
  The layout of the specification's table, to compare the codec with: the eight header
  bytes (16-bit fields big-endian), then the four address fields in the order sender
  hardware, sender IP, target hardware, target IP, with no padding; and the total size
  \<open>8 + 2H + 2L\<close> that the table gives.
\<close>

definition header_bytes :: "Packet \<Rightarrow> byte list" where
  "header_bytes p =
     [ucast (drop_bit 8 (HardwareType p)), ucast (HardwareType p),
      ucast (drop_bit 8 (ProtocolType p)), ucast (ProtocolType p),
      HardwareAddrLength p, IPLength p,
      ucast (drop_bit 8 (Operation p)), ucast (Operation p)]"

definition wire_format :: "Packet \<Rightarrow> byte list" where
  "wire_format p =
     header_bytes p @ SenderHardwareAddr p @ SenderIP p @ TargetHardwareAddr p @ TargetIP p"

definition wire_length :: "Packet \<Rightarrow> nat" where
  "wire_length p = 8 + 2 * unat (HardwareAddrLength p) + 2 * unat (IPLength p)"

subsection \<open>Packets and inputs used as examples\<close>

text \<open>The zero value \<open>Packet{}\<close>, the usual receiver of \<open>UnmarshalBinary\<close>.\<close>

definition zero_packet :: Packet where
  "zero_packet =
     \<lparr>HardwareType = 0, ProtocolType = 0, HardwareAddrLength = 0, IPLength = 0,
      Operation = 0, SenderHardwareAddr = [], SenderIP = [],
      TargetHardwareAddr = [], TargetIP = []\<rparr>"

text \<open>A well-formed Packet with 16-byte protocol addresses.\<close>

definition wide_ip_packet :: Packet where
  "wide_ip_packet =
     \<lparr>HardwareType = 1, ProtocolType = 0x86DD, HardwareAddrLength = 6, IPLength = 16,
      Operation = 1,
      SenderHardwareAddr = [0x00, 0x11, 0x22, 0x33, 0x44, 0x55], SenderIP = replicate 16 1,
      TargetHardwareAddr = [0x66, 0x77, 0x88, 0x99, 0xAA, 0xBB], TargetIP = replicate 16 2\<rparr>"

text \<open>A well-formed Packet with 2-byte protocol addresses, and what it serializes to.\<close>

definition short_ip_packet :: Packet where
  "short_ip_packet =
     \<lparr>HardwareType = 1, ProtocolType = 0x0800, HardwareAddrLength = 6, IPLength = 2,
      Operation = 1,
      SenderHardwareAddr = [0x00, 0x11, 0x22, 0x33, 0x44, 0x55], SenderIP = [10, 1],
      TargetHardwareAddr = [0x66, 0x77, 0x88, 0x99, 0xAA, 0xBB], TargetIP = [10, 2]\<rparr>"

definition short_ip_bytes :: "byte list" where
  "short_ip_bytes =
     [0, 1, 8, 0, 6, 2, 0, 1,
      0x00, 0x11, 0x22, 0x33, 0x44, 0x55, 10, 1,
      0x66, 0x77, 0x88, 0x99, 0xAA, 0xBB, 10, 2,
      0, 0, 0, 0]"

text \<open>
  What \<open>NewPacket\<close> returns for two hardware addresses of 120 bytes, and for two of
  256 bytes.
\<close>

definition long_hw_packet :: Packet where
  "long_hw_packet =
     \<lparr>HardwareType = 1, ProtocolType = 0x0800, HardwareAddrLength = 120, IPLength = 4,
      Operation = 1,
      SenderHardwareAddr = replicate 120 1, SenderIP = [192, 168, 1, 1],
      TargetHardwareAddr = replicate 120 2, TargetIP = [192, 168, 1, 2]\<rparr>"

definition oversize_hw_packet :: Packet where
  "oversize_hw_packet =
     \<lparr>HardwareType = 1, ProtocolType = 0x0800, HardwareAddrLength = 0, IPLength = 4,
      Operation = 1,
      SenderHardwareAddr = replicate 256 1, SenderIP = [192, 168, 1, 1],
      TargetHardwareAddr = replicate 256 2, TargetIP = [192, 168, 1, 2]\<rparr>"

text \<open>
  A 32-byte input whose header declares 6-byte hardware and 6-byte protocol addresses, and
  the Packet it parses to.
\<close>

definition six_byte_ip_bytes :: "byte list" where
  "six_byte_ip_bytes =
     [0, 1, 8, 0, 6, 6, 0, 2,
      0x00, 0x11, 0x22, 0x33, 0x44, 0x55, 1, 2, 3, 4, 5, 6,
      0x66, 0x77, 0x88, 0x99, 0xAA, 0xBB, 6, 5, 4, 3, 2, 1]"

definition six_byte_ip_packet :: Packet where
  "six_byte_ip_packet =
     \<lparr>HardwareType = 1, ProtocolType = 0x0800, HardwareAddrLength = 6, IPLength = 6,
      Operation = 2,
      SenderHardwareAddr = [0x00, 0x11, 0x22, 0x33, 0x44, 0x55], SenderIP = [1, 2, 3, 4, 5, 6],
      TargetHardwareAddr = [0x66, 0x77, 0x88, 0x99, 0xAA, 0xBB], TargetIP = [6, 5, 4, 3, 2, 1]\<rparr>"

text \<open>Addresses for the constructor: MACs of 5, 6 and 7 bytes, and an IPv6 address.\<close>

definition mac5 :: "byte list" where
  "mac5 = [0x00, 0x11, 0x22, 0x33, 0x44]"

definition mac6 :: "byte list" where
  "mac6 = [0x00, 0x11, 0x22, 0x33, 0x44, 0x55]"

definition mac7 :: "byte list" where
  "mac7 = [0x66, 0x77, 0x88, 0x99, 0xAA, 0xBB, 0xCC]"

definition ipv6_addr :: "byte list" where
  "ipv6_addr = [0x20, 0x01, 0x0d, 0xb8, 0, 0, 0, 0, 0, 0, 0, 0, 0, 0, 0, 1]"

section \<open>Properties of the steps\<close>

lemma To4_length: "To4 ip = Some ip4 \<Longrightarrow> length ip4 = 4"
  by (auto simp: To4_def split: if_splits)

lemma uint16_bytes: "ucast (ucast (v::uint16) :: byte) OR push_bit 8 (ucast (ucast (drop_bit 8 v) :: byte)) = v"
  by (rule bit_word_eqI) (auto simp add: bit_simps)

lemma marshal_size_eq: "marshal_size p = (16 + 2 * unat (HardwareAddrLength p)) mod 256"
  by (simp add: marshal_size_def unat_word_ariths mod_simps mult.commute)

lemma copy_to_append:
  assumes "length pre = lo" and "hi = lo + length src" and "length src \<le> length rest"
  shows "copy_to (pre @ rest) lo hi src = Inr (pre @ src @ drop (length src) rest)"
  using assms by (simp add: copy_to_def)

lemma header_writes:
  "and_then (PutUint16 (replicate (8 + m) 0) 0 ht) (\<lambda>b.
   and_then (PutUint16 b 2 pt) (\<lambda>b.
   and_then (set_index b 4 h) (\<lambda>b.
   and_then (set_index b 5 l) (\<lambda>b.
   and_then (PutUint16 b 6 opn) f))))
   = f ([ucast (drop_bit 8 ht), ucast ht, ucast (drop_bit 8 pt), ucast pt, h, l,
         ucast (drop_bit 8 opn), ucast opn] @ replicate m 0)"
proof -
  have r: "replicate (8 + m) (0::byte) = 0 # 0 # 0 # 0 # 0 # 0 # 0 # 0 # replicate m 0"
    by (simp add: numeral_eq_Suc)
  show ?thesis
    unfolding r by (simp add: and_then_def PutUint16_def set_index_def numeral_eq_Suc)
qed

lemma MarshalBinary_layout:
  assumes v: "valid p" and fit: "wire_length p \<le> marshal_size p"
  shows "MarshalBinary p = Inr (wire_format p @ replicate (marshal_size p - wire_length p) 0)"
proof -
  define hal where "hal = unat (HardwareAddrLength p)"
  define pl where "pl = unat (IPLength p)"
  define m where "m = marshal_size p - 8"
  define hdr where "hdr = header_bytes p"
  have len: "length (SenderHardwareAddr p) = hal" "length (TargetHardwareAddr p) = hal"
    "length (SenderIP p) = pl" "length (TargetIP p) = pl"
    using v by (simp_all add: valid_def hal_def pl_def)
  have sz: "marshal_size p = 8 + m" and m: "2 * hal + 2 * pl \<le> m"
    using fit by (simp_all add: wire_length_def m_def hal_def pl_def)
  have lh: "length hdr = 8" by (simp add: hdr_def header_bytes_def)
  have c1: "copy_to (hdr @ replicate m 0) 8 (8 + hal) (SenderHardwareAddr p)
            = Inr (hdr @ SenderHardwareAddr p @ replicate (m - hal) 0)"
    using copy_to_append [of hdr 8 "8 + hal" "SenderHardwareAddr p" "replicate m 0"] lh len m
    by simp
  have c2: "copy_to ((hdr @ SenderHardwareAddr p) @ replicate (m - hal) 0) (8 + hal) (8 + hal + pl) (SenderIP p)
            = Inr ((hdr @ SenderHardwareAddr p) @ SenderIP p @ replicate (m - hal - pl) 0)"
    using copy_to_append [of "hdr @ SenderHardwareAddr p" "8 + hal" "8 + hal + pl" "SenderIP p"
        "replicate (m - hal) 0"] lh len m
    by simp
  have c3: "copy_to ((hdr @ SenderHardwareAddr p @ SenderIP p) @ replicate (m - hal - pl) 0)
              (8 + hal + pl) (8 + hal + pl + hal) (TargetHardwareAddr p)
            = Inr ((hdr @ SenderHardwareAddr p @ SenderIP p) @ TargetHardwareAddr p
                   @ replicate (m - hal - pl - hal) 0)"
    using copy_to_append [of "hdr @ SenderHardwareAddr p @ SenderIP p" "8 + hal + pl"
        "8 + hal + pl + hal" "TargetHardwareAddr p" "replicate (m - hal - pl) 0"] lh len m
    by simp
  have c4: "copy_to ((hdr @ SenderHardwareAddr p @ SenderIP p @ TargetHardwareAddr p)
                     @ replicate (m - hal - pl - hal) 0)
              (8 + hal + pl + hal) (8 + hal + pl + hal + pl) (TargetIP p)
            = Inr ((hdr @ SenderHardwareAddr p @ SenderIP p @ TargetHardwareAddr p) @ TargetIP p
                   @ replicate (m - hal - pl - hal - pl) 0)"
    using copy_to_append [of "hdr @ SenderHardwareAddr p @ SenderIP p @ TargetHardwareAddr p"
        "8 + hal + pl + hal" "8 + hal + pl + hal + pl" "TargetIP p"
        "replicate (m - hal - pl - hal) 0"] lh len m
    by simp
  have rest: "m - hal - pl - hal - pl = marshal_size p - wire_length p"
    by (simp add: m_def wire_length_def hal_def pl_def)
  have "MarshalBinary p =
     and_then (copy_to (hdr @ replicate m 0) 8 (8 + hal) (SenderHardwareAddr p)) (\<lambda>b.
     and_then (copy_to b (8 + hal) (8 + hal + pl) (SenderIP p)) (\<lambda>b.
     and_then (copy_to b (8 + hal + pl) (8 + hal + pl + hal) (TargetHardwareAddr p)) (\<lambda>b.
     and_then (copy_to b (8 + hal + pl + hal) (8 + hal + pl + hal + pl) (TargetIP p)) (\<lambda>b.
     Inr b))))"
    unfolding MarshalBinary_def Let_def sz header_writes
    by (simp add: hal_def pl_def hdr_def header_bytes_def)
  also have "\<dots> = Inr (hdr @ SenderHardwareAddr p @ SenderIP p @ TargetHardwareAddr p @ TargetIP p
                   @ replicate (m - hal - pl - hal - pl) 0)"
    using c1 c2 c3 c4 by (simp add: and_then_def)
  finally show ?thesis
    using rest by (simp add: wire_format_def hdr_def)
qed

lemma make_copy_exact:
  "length pre = lo \<Longrightarrow> hi = lo + n \<Longrightarrow> length xs = n \<Longrightarrow>
   make_copy n (pre @ xs @ rest) lo hi = xs"
  by (simp add: make_copy_def)

lemma Uint16_header:
  "Uint16 (a # b # rest) 0 = ucast b OR push_bit 8 (ucast a)"
  "Uint16 (x0 # x1 # a # b # rest) 2 = ucast b OR push_bit 8 (ucast a)"
  "Uint16 (x0 # x1 # x2 # x3 # x4 # x5 # a # b # rest) 6 = ucast b OR push_bit 8 (ucast a)"
  by (simp_all add: Uint16_def numeral_eq_Suc)

lemma UnmarshalBinary_wire_format:
  assumes v: "valid p"
  shows "UnmarshalBinary q (wire_format p @ extra) = (None, p)"
proof -
  define hal where "hal = unat (HardwareAddrLength p)"
  define pl where "pl = unat (IPLength p)"
  define hdr where "hdr = header_bytes p"
  define b where "b = wire_format p @ extra"
  have len: "length (SenderHardwareAddr p) = hal" "length (TargetHardwareAddr p) = hal"
    "length (SenderIP p) = pl" "length (TargetIP p) = pl"
    using v by (simp_all add: valid_def hal_def pl_def)
  have lh: "length hdr = 8" by (simp add: hdr_def header_bytes_def)
  have lb: "length b = 8 + 2 * hal + 2 * pl + length extra"
    by (simp add: b_def wire_format_def len lh [unfolded hdr_def])
  have hd: "Uint16 b 0 = HardwareType p" "Uint16 b 2 = ProtocolType p"
    "b ! 4 = HardwareAddrLength p" "b ! 5 = IPLength p" "Uint16 b 6 = Operation p"
    by (simp_all add: b_def wire_format_def header_bytes_def Uint16_header uint16_bytes)
  have s1: "make_copy hal b 8 (8 + hal) = SenderHardwareAddr p"
    using make_copy_exact [of hdr 8 "8 + hal" hal "SenderHardwareAddr p"
        "SenderIP p @ TargetHardwareAddr p @ TargetIP p @ extra"] lh len
    by (simp add: b_def wire_format_def hdr_def)
  have s2: "make_copy pl b (8 + hal) (8 + hal + pl) = SenderIP p"
    using make_copy_exact [of "hdr @ SenderHardwareAddr p" "8 + hal" "8 + hal + pl" pl "SenderIP p"
        "TargetHardwareAddr p @ TargetIP p @ extra"] lh len
    by (simp add: b_def wire_format_def hdr_def)
  have s3: "make_copy hal b (8 + hal + pl) (8 + hal + pl + hal) = TargetHardwareAddr p"
    using make_copy_exact [of "hdr @ SenderHardwareAddr p @ SenderIP p" "8 + hal + pl"
        "8 + hal + pl + hal" hal "TargetHardwareAddr p" "TargetIP p @ extra"] lh len
    by (simp add: b_def wire_format_def hdr_def)
  have s4: "make_copy pl b (8 + hal + pl + hal) (8 + hal + pl + hal + pl) = TargetIP p"
    using make_copy_exact [of "hdr @ SenderHardwareAddr p @ SenderIP p @ TargetHardwareAddr p"
        "8 + hal + pl + hal" "8 + hal + pl + hal + pl" pl "TargetIP p" extra] lh len
    by (simp add: b_def wire_format_def hdr_def)
  have "UnmarshalBinary q b = (None, p)"
    unfolding UnmarshalBinary_def Let_def
    using lb s1 s2 s3 s4 by (simp add: hd hal_def [symmetric] pl_def [symmetric])
  then show ?thesis by (simp add: b_def)
qed

lemma PutUint16_ok: "lo + 2 \<le> length b \<Longrightarrow> \<exists>b'. PutUint16 b lo v = Inr b' \<and> length b' = length b"
  by (simp add: PutUint16_def)

lemma set_index_ok: "i < length b \<Longrightarrow> \<exists>b'. set_index b i v = Inr b' \<and> length b' = length b"
  by (simp add: set_index_def)

lemma copy_to_ok:
  "lo \<le> hi \<Longrightarrow> hi \<le> length b \<Longrightarrow> \<exists>b'. copy_to b lo hi src = Inr b' \<and> length b' = length b"
  by (auto simp add: copy_to_def Let_def min_def)

lemma PutUint16_Inr: "PutUint16 b lo v = Inr b' \<Longrightarrow> length b' = length b \<and> lo + 2 \<le> length b"
  by (auto simp add: PutUint16_def split: if_splits)

lemma set_index_Inr: "set_index b i v = Inr b' \<Longrightarrow> length b' = length b \<and> i < length b"
  by (auto simp add: set_index_def split: if_splits)

lemma copy_to_Inr: "copy_to b lo hi src = Inr b' \<Longrightarrow> length b' = length b \<and> lo \<le> hi \<and> hi \<le> length b"
  by (auto simp add: copy_to_def Let_def min_def split: if_splits)

lemma and_then_Inr: "and_then r f = Inr y \<longleftrightarrow> (\<exists>x. r = Inr x \<and> f x = Inr y)"
  by (cases r) (simp_all add: and_then_def)

lemma and_then_Inl: "and_then r f = Inl e \<longleftrightarrow> r = Inl e \<or> (\<exists>x. r = Inr x \<and> f x = Inl e)"
  by (cases r) (simp_all add: and_then_def)

lemma step_failure:
  "PutUint16 b lo v = Inl e \<Longrightarrow> e = RuntimePanic"
  "set_index b i x = Inl e \<Longrightarrow> e = RuntimePanic"
  "copy_to b lo hi src = Inl e \<Longrightarrow> e = RuntimePanic"
  by (auto simp add: PutUint16_def set_index_def copy_to_def Let_def split: if_splits)

lemma MarshalBinary_Inr:
  assumes "MarshalBinary p = Inr b"
  shows "length b = marshal_size p \<and> wire_length p \<le> marshal_size p"
proof -
  from assms obtain b1 b2 b3 b4 b5 b6 b7 b8 where
    s: "PutUint16 (replicate (marshal_size p) 0) 0 (HardwareType p) = Inr b1"
       "PutUint16 b1 2 (ProtocolType p) = Inr b2"
       "set_index b2 4 (HardwareAddrLength p) = Inr b3"
       "set_index b3 5 (IPLength p) = Inr b4"
       "PutUint16 b4 6 (Operation p) = Inr b5"
       "copy_to b5 8 (8 + unat (HardwareAddrLength p)) (SenderHardwareAddr p) = Inr b6"
       "copy_to b6 (8 + unat (HardwareAddrLength p))
          (8 + unat (HardwareAddrLength p) + unat (IPLength p)) (SenderIP p) = Inr b7"
       "copy_to b7 (8 + unat (HardwareAddrLength p) + unat (IPLength p))
          (8 + unat (HardwareAddrLength p) + unat (IPLength p) + unat (HardwareAddrLength p))
          (TargetHardwareAddr p) = Inr b8"
       "copy_to b8 (8 + unat (HardwareAddrLength p) + unat (IPLength p) + unat (HardwareAddrLength p))
          (8 + unat (HardwareAddrLength p) + unat (IPLength p) + unat (HardwareAddrLength p)
             + unat (IPLength p))
          (TargetIP p) = Inr b"
    unfolding MarshalBinary_def Let_def and_then_Inr by blast
  have l: "length b1 = marshal_size p" "length b2 = length b1" "length b3 = length b2"
    "length b4 = length b3" "length b5 = length b4" "length b6 = length b5"
    "length b7 = length b6" "length b8 = length b7" "length b = length b8"
    using s(1,2,5) [THEN PutUint16_Inr] s(3,4) [THEN set_index_Inr] s(6-9) [THEN copy_to_Inr]
    by simp_all
  from copy_to_Inr [OF s(9)] l show ?thesis
    by (simp add: wire_length_def)
qed

lemma MarshalBinary_Inl: "MarshalBinary p = Inl e \<Longrightarrow> e = RuntimePanic"
  unfolding MarshalBinary_def Let_def and_then_Inl
  by (auto dest: step_failure)

lemma MarshalBinary_fits:
  assumes fit: "wire_length p \<le> marshal_size p"
  shows "\<exists>b. MarshalBinary p = Inr b"
proof -
  define hal where "hal = unat (HardwareAddrLength p)"
  define pl where "pl = unat (IPLength p)"
  define n where "n = marshal_size p"
  have n: "8 + hal + pl + hal + pl \<le> n"
    using fit by (simp add: wire_length_def hal_def pl_def n_def)
  obtain b1 where b1: "PutUint16 (replicate n 0) 0 (HardwareType p) = Inr b1" "length b1 = n"
    using PutUint16_ok [of 0 "replicate n 0"] n by auto
  obtain b2 where b2: "PutUint16 b1 2 (ProtocolType p) = Inr b2" "length b2 = n"
    using PutUint16_ok [of 2 b1] n b1 by auto
  obtain b3 where b3: "set_index b2 4 (HardwareAddrLength p) = Inr b3" "length b3 = n"
    using set_index_ok [of 4 b2] n b2 by auto
  obtain b4 where b4: "set_index b3 5 (IPLength p) = Inr b4" "length b4 = n"
    using set_index_ok [of 5 b3] n b3 by auto
  obtain b5 where b5: "PutUint16 b4 6 (Operation p) = Inr b5" "length b5 = n"
    using PutUint16_ok [of 6 b4] n b4 by auto
  obtain b6 where b6: "copy_to b5 8 (8 + hal) (SenderHardwareAddr p) = Inr b6" "length b6 = n"
    using copy_to_ok [of 8 "8 + hal" b5] n b5 by auto
  obtain b7 where b7: "copy_to b6 (8 + hal) (8 + hal + pl) (SenderIP p) = Inr b7" "length b7 = n"
    using copy_to_ok [of "8 + hal" "8 + hal + pl" b6] n b6 by auto
  obtain b8 where b8: "copy_to b7 (8 + hal + pl) (8 + hal + pl + hal) (TargetHardwareAddr p) = Inr b8"
    "length b8 = n"
    using copy_to_ok [of "8 + hal + pl" "8 + hal + pl + hal" b7] n b7 by auto
  obtain b9 where b9: "copy_to b8 (8 + hal + pl + hal) (8 + hal + pl + hal + pl) (TargetIP p) = Inr b9"
    using copy_to_ok [of "8 + hal + pl + hal" "8 + hal + pl + hal + pl" b8] n b8 by auto
  have "MarshalBinary p = Inr b9"
    by (simp only: MarshalBinary_def Let_def hal_def [symmetric] pl_def [symmetric]
        n_def [symmetric] and_then_def b1(1) b2(1) b3(1) b4(1) b5(1) b6(1) b7(1) b8(1) b9
        sum.case)
  then show ?thesis ..
qed

lemma fits_iff:
  "wire_length p \<le> marshal_size p \<longleftrightarrow> unat (HardwareAddrLength p) \<le> 119 \<and> unat (IPLength p) \<le> 4"
proof (cases "unat (HardwareAddrLength p) \<le> 119")
  case True
  then have "marshal_size p = 16 + 2 * unat (HardwareAddrLength p)"
    by (simp add: marshal_size_eq)
  with True show ?thesis by (simp add: wire_length_def)
next
  case False
  then have big: "256 \<le> 16 + 2 * unat (HardwareAddrLength p)"
    by simp
  have "marshal_size p = (16 + 2 * unat (HardwareAddrLength p) - 256) mod 256"
    unfolding marshal_size_eq using big by (rule le_mod_geq)
  also have "\<dots> \<le> 16 + 2 * unat (HardwareAddrLength p) - 256"
    by (rule mod_less_eq_dividend)
  finally have "marshal_size p < wire_length p"
    using big by (simp add: wire_length_def)
  with False show ?thesis by simp
qed

lemma length_wire_format: "valid p \<Longrightarrow> length (wire_format p) = wire_length p"
  by (simp add: wire_format_def wire_length_def header_bytes_def valid_def)

lemma UnmarshalBinary_truncated:
  assumes v: "valid p" and k: "k < wire_length p"
  shows "fst (UnmarshalBinary q (take k (wire_format p @ extra))) = Some ErrUnexpectedEOF"
proof (cases "k < 8")
  case True
  then have "length (take k (wire_format p @ extra)) < 8"
    by simp
  then show ?thesis
    unfolding UnmarshalBinary_def by (simp only: if_True fst_conv)
next
  case False
  define rest where
    "rest = SenderHardwareAddr p @ SenderIP p @ TargetHardwareAddr p @ TargetIP p @ extra"
  define b where "b = take k (wire_format p @ extra)"
  have lh: "length (header_bytes p) = 8"
    by (simp add: header_bytes_def)
  have "wire_format p @ extra = header_bytes p @ rest"
    by (simp add: wire_format_def rest_def)
  then have b: "b = header_bytes p @ take (k - 8) rest"
    using False lh by (simp add: b_def)
  have lb: "length b = k"
    using k length_wire_format [OF v] by (simp add: b_def)
  have hd: "b ! 4 = HardwareAddrLength p" "b ! 5 = IPLength p"
    by (simp_all add: b header_bytes_def)
  have "fst (UnmarshalBinary q b) = Some ErrUnexpectedEOF"
    unfolding UnmarshalBinary_def Let_def
    using k False by (simp add: lb hd wire_length_def)
  then show ?thesis by (simp add: b_def)
qed

lemma UnmarshalBinary_valid:
  assumes "UnmarshalBinary q b = (None, p)"
  shows "valid p"
  using assms
  by (auto simp add: UnmarshalBinary_def Let_def valid_def make_copy_def split: if_splits)

lemma UnmarshalBinary_error: "fst (UnmarshalBinary q b) = Some e \<Longrightarrow> e = ErrUnexpectedEOF"
  by (auto simp add: UnmarshalBinary_def Let_def split: if_splits)

lemma NewPacket_Inr:
  assumes "NewPacket op srcHW srcIP dstHW dstIP = Inr p"
  shows "HardwareType p = 1 \<and> ProtocolType p = 0x0800 \<and>
         HardwareAddrLength p = of_nat (length srcHW) \<and> IPLength p = 4 \<and> Operation p = op \<and>
         SenderHardwareAddr p = srcHW \<and> TargetHardwareAddr p = dstHW \<and>
         To4 srcIP = Some (SenderIP p) \<and> To4 dstIP = Some (TargetIP p) \<and>
         length (SenderIP p) = 4 \<and> length (TargetIP p) = 4 \<and>
         6 \<le> length srcHW \<and> length dstHW = length srcHW"
  using assms
  by (auto simp add: NewPacket_def EtherTypeIPv4_def split: if_splits option.splits dest: To4_length)

lemma NewPacket_valid:
  assumes "NewPacket op srcHW srcIP dstHW dstIP = Inr p" and "length srcHW \<le> 255"
  shows "valid p \<and> unat (HardwareAddrLength p) = length srcHW"
proof -
  have "unat (of_nat (length srcHW) :: byte) = length srcHW"
    using assms(2) by (simp add: unat_of_nat)
  with NewPacket_Inr [OF assms(1)] show ?thesis
    by (simp add: valid_def)
qed

section \<open>Where the codec meets the wire layout\<close>

text \<open>
  The buffer that \<open>MarshalBinary\<close> allocates holds the layout exactly when the hardware
  addresses have at most 119 bytes and the protocol addresses at most 4; it is the
  layout itself, with no byte left over, when the protocol addresses have 4 bytes.
\<close>

lemma MarshalBinary_succeeds_iff:
  "(\<exists>b. MarshalBinary p = Inr b) \<longleftrightarrow>
     unat (HardwareAddrLength p) \<le> 119 \<and> unat (IPLength p) \<le> 4"
  using MarshalBinary_Inr [of p] MarshalBinary_fits [of p] fits_iff [of p] by blast

lemma MarshalBinary_ipv4:
  assumes "valid p" and "IPLength p = 4" and "unat (HardwareAddrLength p) \<le> 119"
  shows "MarshalBinary p = Inr (wire_format p)"
proof -
  have "marshal_size p = wire_length p"
    using assms(2,3) by (simp add: marshal_size_eq wire_length_def)
  with MarshalBinary_layout [OF assms(1)] show ?thesis by simp
qed

lemma MarshalBinary_roundtrip:
  assumes "valid p" and "MarshalBinary p = Inr b"
  shows "UnmarshalBinary q (b @ extra) = (None, p)"
proof -
  have "wire_length p \<le> marshal_size p"
    using MarshalBinary_Inr [OF assms(2)] by simp
  then have "b = wire_format p @ replicate (marshal_size p - wire_length p) 0"
    using MarshalBinary_layout [OF assms(1)] assms(2) by simp
  then have "b @ extra = wire_format p @ (replicate (marshal_size p - wire_length p) 0 @ extra)"
    by simp
  then show ?thesis
    using UnmarshalBinary_wire_format [OF assms(1)] by simp
qed

lemma MarshalBinary_prefix_rejected:
  assumes "valid p" and "MarshalBinary p = Inr b" and "k < wire_length p"
  shows "fst (UnmarshalBinary q (take k b)) = Some ErrUnexpectedEOF"
proof -
  have "wire_length p \<le> marshal_size p"
    using MarshalBinary_Inr [OF assms(2)] by simp
  then have "b = wire_format p @ replicate (marshal_size p - wire_length p) 0"
    using MarshalBinary_layout [OF assms(1)] assms(2) by simp
  then show ?thesis
    using UnmarshalBinary_truncated [OF assms(1,3), of q "replicate (marshal_size p - wire_length p) 0"]
    by (simp only:)
qed

section \<open>The constructor\<close>

text \<open>
  C6: \<open>NewPacket\<close> checks in a fixed order and stops at the first violation. A hardware
  address shorter than 6 bytes gives \<open>ErrInvalidHardwareAddr\<close>, whatever the other
  arguments are; two hardware addresses of at least 6 bytes and of different length give
  \<open>ErrInvalidHardwareAddr\<close>, whatever the IP arguments are; with the hardware addresses
  accepted, an IP argument that \<open>To4\<close> does not reduce gives \<open>ErrInvalidIP\<close>; otherwise
  the call succeeds. Whatever \<open>To4\<close> reduces an argument to has exactly 4 bytes.
\<close>

theorem NewPacket_validation_order:
  "(length srcHW < 6 \<or> length dstHW < 6 \<longrightarrow>
      NewPacket op srcHW srcIP dstHW dstIP = Inl ErrInvalidHardwareAddr) \<and>
   (6 \<le> length srcHW \<and> 6 \<le> length dstHW \<and> length srcHW \<noteq> length dstHW \<longrightarrow>
      NewPacket op srcHW srcIP dstHW dstIP = Inl ErrInvalidHardwareAddr) \<and>
   (6 \<le> length srcHW \<and> length dstHW = length srcHW \<and> (To4 srcIP = None \<or> To4 dstIP = None) \<longrightarrow>
      NewPacket op srcHW srcIP dstHW dstIP = Inl ErrInvalidIP) \<and>
   (6 \<le> length srcHW \<and> length dstHW = length srcHW \<and> To4 srcIP \<noteq> None \<and> To4 dstIP \<noteq> None \<longrightarrow>
      (\<exists>p. NewPacket op srcHW srcIP dstHW dstIP = Inr p)) \<and>
   (\<forall>ip4. To4 srcIP = Some ip4 \<or> To4 dstIP = Some ip4 \<longrightarrow> length ip4 = 4)"
  by (auto simp add: NewPacket_def split: option.splits dest: To4_length)

theorem NewPacket_validation_order_witness:
  "length mac5 < 6 \<and> To4 ipv6_addr = None \<and>
   NewPacket OperationRequest mac5 ipv6_addr mac6 [192, 168, 1, 2] = Inl ErrInvalidHardwareAddr \<and>
   6 \<le> length mac6 \<and> 6 \<le> length mac7 \<and> length mac6 \<noteq> length mac7 \<and>
   NewPacket OperationRequest mac6 ipv6_addr mac7 [192, 168, 1, 2] = Inl ErrInvalidHardwareAddr \<and>
   NewPacket OperationRequest mac6 ipv6_addr mac6 [192, 168, 1, 2] = Inl ErrInvalidIP \<and>
   To4 [192, 168, 1, 1] = Some [192, 168, 1, 1] \<and> To4 [192, 168, 1, 2] = Some [192, 168, 1, 2] \<and>
   (\<exists>p. NewPacket OperationRequest mac6 [192, 168, 1, 1] mac6 [192, 168, 1, 2] = Inr p) \<and>
   length [192, 168, 1, 1 :: byte] = 4"
proof -
  have len: "length mac5 < 6" "6 \<le> length mac6" "6 \<le> length mac7" "length mac6 \<noteq> length mac7"
    by (simp_all add: mac5_def mac6_def mac7_def)
  have ip: "To4 ipv6_addr = None" "To4 [192, 168, 1, 1] = Some [192, 168, 1, 1]"
    "To4 [192, 168, 1, 2] = Some [192, 168, 1, 2]"
    by (simp_all add: To4_def ipv6_addr_def isZeros_def)
  have short: "NewPacket OperationRequest mac5 ipv6_addr mac6 [192, 168, 1, 2]
                 = Inl ErrInvalidHardwareAddr"
    using NewPacket_validation_order [THEN conjunct1, of mac5 mac6] len(1) by blast
  have mismatch: "NewPacket OperationRequest mac6 ipv6_addr mac7 [192, 168, 1, 2]
                    = Inl ErrInvalidHardwareAddr"
    using NewPacket_validation_order [THEN conjunct2, THEN conjunct1, of mac6 mac7] len(2-4)
    by blast
  have v6: "NewPacket OperationRequest mac6 ipv6_addr mac6 [192, 168, 1, 2] = Inl ErrInvalidIP"
    using NewPacket_validation_order [THEN conjunct2, THEN conjunct2, THEN conjunct1,
        of mac6 mac6 ipv6_addr] len(2) ip(1)
    by blast
  have ok: "\<exists>p. NewPacket OperationRequest mac6 [192, 168, 1, 1] mac6 [192, 168, 1, 2] = Inr p"
    using NewPacket_validation_order [THEN conjunct2, THEN conjunct2, THEN conjunct2,
        THEN conjunct1, of mac6 mac6 "[192, 168, 1, 1]" "[192, 168, 1, 2]"] len(2) ip(2,3)
    by simp
  have four: "length [192, 168, 1, 1 :: byte] = 4"
    using NewPacket_validation_order [THEN conjunct2, THEN conjunct2, THEN conjunct2,
        THEN conjunct2, of "[192, 168, 1, 1]" "[192, 168, 1, 2]"] ip(2)
    by blast
  from len ip short mismatch v6 ok four show ?thesis
    by (simp only: simp_thms)
qed

text \<open>
  C7: on success the Packet has hardware type 1, protocol type 0x0800, IP length 4, the
  operation and the hardware addresses of the call, and the \<open>To4\<close> forms of the IP
  addresses; its \<open>HardwareAddrLength\<close> is to be the length of the sender hardware
  address. \<open>NewPacket\<close> stores \<open>uint8(len(srcHW))\<close> with no upper bound on the length
  (\<open>NewPacket_Inr\<close>), so the two agree up to 255 bytes (\<open>NewPacket_valid\<close>) and not
  beyond: for hardware addresses of 256 bytes the call succeeds with
  \<open>HardwareAddrLength = 0\<close>.
\<close>

theorem NewPacket_hw256_length:
  "NewPacket OperationRequest (replicate 256 1) [192, 168, 1, 1] (replicate 256 2) [192, 168, 1, 2]
     = Inr oversize_hw_packet \<and>
   unat (HardwareAddrLength oversize_hw_packet) = 0 \<and>
   length (replicate 256 (1 :: byte)) = 256"
  by (simp add: NewPacket_def To4_def oversize_hw_packet_def EtherTypeIPv4_def OperationRequest_def)

text \<open>
  C8: every Packet of a successful \<open>NewPacket\<close> or \<open>UnmarshalBinary\<close> is to satisfy the
  invariant \<open>valid\<close>. It does after \<open>UnmarshalBinary\<close> (\<open>UnmarshalBinary_valid\<close>) and
  after \<open>NewPacket\<close> for hardware addresses of at most 255 bytes (\<open>NewPacket_valid\<close>).
  The Packet that \<open>NewPacket\<close> returns for hardware addresses of 256 bytes declares
  length 0 and stores 256 bytes: it is not valid.
\<close>

theorem NewPacket_hw256_invalid:
  "NewPacket OperationRequest (replicate 256 1) [192, 168, 1, 1] (replicate 256 2) [192, 168, 1, 2]
     = Inr oversize_hw_packet \<and>
   \<not> valid oversize_hw_packet"
  by (simp add: NewPacket_def To4_def oversize_hw_packet_def EtherTypeIPv4_def OperationRequest_def
      valid_def)

section \<open>Serialization\<close>

text \<open>
  C2: the byte sequence that \<open>MarshalBinary\<close> returns is to have length
  \<open>8 + 2H + 2L\<close>. The buffer is allocated with \<open>16 + 2H\<close> bytes, counted in eight
  bits (\<open>marshal_size_eq\<close>, \<open>MarshalBinary_Inr\<close>): the two agree only for \<open>L = 4\<close> and
  \<open>H \<le> 119\<close>. The zero Packet, with \<open>H = L = 0\<close> and empty addresses, serializes to 16
  bytes where the layout has 8.
\<close>

theorem MarshalBinary_zero_packet_length:
  "MarshalBinary zero_packet = Inr (replicate 16 0) \<and>
   length (replicate 16 (0 :: byte)) = 16 \<and>
   wire_length zero_packet = 8"
  by code_simp

text \<open>
  C3: \<open>MarshalBinary\<close> is to succeed on every well-formed Packet. It succeeds exactly for
  \<open>H \<le> 119\<close> and \<open>L \<le> 4\<close> (\<open>MarshalBinary_succeeds_iff\<close>) and panics otherwise
  (\<open>MarshalBinary_Inl\<close>). For two hardware addresses of 120 bytes \<open>NewPacket\<close> returns a
  well-formed Packet; the buffer size \<open>16 + 2 * 120\<close> wraps to 0, and the first slice
  expression \<open>b[0:2]\<close> is out of range.
\<close>

theorem MarshalBinary_long_hw_panics:
  "NewPacket OperationRequest (replicate 120 1) [192, 168, 1, 1] (replicate 120 2) [192, 168, 1, 2]
     = Inr long_hw_packet \<and>
   valid long_hw_packet \<and>
   marshal_size long_hw_packet = 0 \<and>
   MarshalBinary long_hw_packet = Inl RuntimePanic"
  by (simp add: NewPacket_def To4_def long_hw_packet_def EtherTypeIPv4_def OperationRequest_def
      valid_def MarshalBinary_def marshal_size_def and_then_def PutUint16_def)

section \<open>Round trips\<close>

text \<open>
  C1: deserializing the serialization of a valid Packet is to give the Packet back.
  Whenever \<open>MarshalBinary\<close> returns, it does (\<open>MarshalBinary_roundtrip\<close>); but the buffer
  leaves room for 4-byte protocol addresses only, and the valid Packet with 16-byte
  protocol addresses makes the copy into \<open>b[14:30]\<close> of the 28-byte buffer panic, so
  there is nothing to deserialize.
\<close>

theorem MarshalBinary_wide_ip_panics:
  "valid wide_ip_packet \<and>
   marshal_size wide_ip_packet = 28 \<and>
   wire_length wide_ip_packet = 52 \<and>
   MarshalBinary wide_ip_packet = Inl RuntimePanic"
  by (simp add: valid_def wide_ip_packet_def MarshalBinary_def marshal_size_def wire_length_def
      and_then_def PutUint16_def set_index_def copy_to_def)

text \<open>
  C5: every proper prefix of the serialization of a valid Packet is to be rejected with
  \<open>io.ErrUnexpectedEOF\<close>. Prefixes shorter than the layout are
  (\<open>MarshalBinary_prefix_rejected\<close>), but for protocol addresses shorter than 4 bytes the
  serialization is longer than the layout. The valid Packet with 2-byte protocol
  addresses serializes to 28 bytes, and the 24-byte prefix parses without error, to the
  Packet itself.
\<close>

theorem UnmarshalBinary_prefix_accepted:
  "valid short_ip_packet \<and>
   MarshalBinary short_ip_packet = Inr short_ip_bytes \<and>
   24 < length short_ip_bytes \<and>
   UnmarshalBinary zero_packet (take 24 short_ip_bytes) = (None, short_ip_packet)"
  by code_simp

text \<open>
  C9: deserializing the serialization of a valid Packet followed by further bytes is to
  give the Packet back. Whenever \<open>MarshalBinary\<close> returns, it does
  (\<open>MarshalBinary_roundtrip\<close>). The 32-byte input with 6-byte protocol addresses parses
  to a valid Packet, which \<open>MarshalBinary\<close> cannot serialize: there is no serialization
  to append to.
\<close>

theorem MarshalBinary_parsed_packet_panics:
  "UnmarshalBinary zero_packet six_byte_ip_bytes = (None, six_byte_ip_packet) \<and>
   valid six_byte_ip_packet \<and>
   MarshalBinary six_byte_ip_packet = Inl RuntimePanic"
  by code_simp

section \<open>Deserialization of a short input\<close>

text \<open>
  C10: for every input of fewer than 8 bytes, \<open>UnmarshalBinary\<close> returns
  \<open>io.ErrUnexpectedEOF\<close> before it assigns any field: the receiver is the Packet it was
  before the call, in every field.
\<close>

theorem UnmarshalBinary_short_header:
  "length b < 8 \<Longrightarrow> UnmarshalBinary p b = (Some ErrUnexpectedEOF, p)"
  by (simp add: UnmarshalBinary_def)

theorem UnmarshalBinary_short_header_witness:
  "length [0, 1, 8 :: byte] < 8 \<and>
   UnmarshalBinary wide_ip_packet [0, 1, 8] = (Some ErrUnexpectedEOF, wide_ip_packet)"
  using UnmarshalBinary_short_header [of "[0, 1, 8]" wide_ip_packet] by simp

text \<open>
  C4 as stated, that a failure with \<open>io.ErrUnexpectedEOF\<close> leaves every field of the
  receiver as it was, fails for an 8-byte header that declares addresses the input does
  not have: the header fields are stored before the second length check.
\<close>

theorem UnmarshalBinary_eof_header_stored:
  "fst (UnmarshalBinary zero_packet [0, 1, 8, 0, 6, 4, 0, 1]) = Some ErrUnexpectedEOF \<and>
   HardwareType (snd (UnmarshalBinary zero_packet [0, 1, 8, 0, 6, 4, 0, 1])) = 1 \<and>
   HardwareType zero_packet = 0"
  by (simp add: UnmarshalBinary_def Uint16_def zero_packet_def)

text \<open>
  C4, amended: whenever \<open>UnmarshalBinary\<close> fails with \<open>io.ErrUnexpectedEOF\<close>, the four
  address fields of the receiver are as they were before the call. If the input has
  fewer than 8 bytes, every field is as it was. If it has 8 bytes or more, the five
  header fields hold the values of the input's first 8 bytes, and the input is shorter
  than the \<open>8 + 2H + 2L\<close> bytes these declare.
\<close>

theorem UnmarshalBinary_eof_fields:
  assumes "UnmarshalBinary p b = (Some ErrUnexpectedEOF, p')"
  shows "SenderHardwareAddr p' = SenderHardwareAddr p \<and> SenderIP p' = SenderIP p \<and>
         TargetHardwareAddr p' = TargetHardwareAddr p \<and> TargetIP p' = TargetIP p \<and>
         (length b < 8 \<longrightarrow> p' = p) \<and>
         (8 \<le> length b \<longrightarrow>
            HardwareType p' = Uint16 b 0 \<and> ProtocolType p' = Uint16 b 2 \<and>
            HardwareAddrLength p' = b ! 4 \<and> IPLength p' = b ! 5 \<and> Operation p' = Uint16 b 6 \<and>
            length b < 8 + 2 * unat (b ! 4) + 2 * unat (b ! 5))"
  using assms
  by (auto simp add: UnmarshalBinary_def Let_def split: if_splits)

theorem UnmarshalBinary_eof_fields_witness:
  "UnmarshalBinary short_ip_packet [0, 1, 8] = (Some ErrUnexpectedEOF, short_ip_packet) \<and>
   length [0, 1, 8 :: byte] < 8 \<and>
   UnmarshalBinary short_ip_packet [0, 1, 8, 0, 6, 4, 0, 2] =
     (Some ErrUnexpectedEOF,
      short_ip_packet\<lparr>HardwareType := 1, ProtocolType := 0x0800, HardwareAddrLength := 6,
                      IPLength := 4, Operation := 2\<rparr>) \<and>
   8 \<le> length [0, 1, 8, 0, 6, 4, 0, 2 :: byte] \<and>
   SenderIP (short_ip_packet\<lparr>HardwareType := 1, ProtocolType := 0x0800, HardwareAddrLength := 6,
                      IPLength := 4, Operation := 2\<rparr>) = SenderIP short_ip_packet \<and>
   IPLength (short_ip_packet\<lparr>HardwareType := 1, ProtocolType := 0x0800, HardwareAddrLength := 6,
                      IPLength := 4, Operation := 2\<rparr>) = [0, 1, 8, 0, 6, 4, 0, 2] ! 5"
proof -
  have short: "UnmarshalBinary short_ip_packet [0, 1, 8] = (Some ErrUnexpectedEOF, short_ip_packet)"
    by (simp add: UnmarshalBinary_def)
  have header: "UnmarshalBinary short_ip_packet [0, 1, 8, 0, 6, 4, 0, 2] =
     (Some ErrUnexpectedEOF,
      short_ip_packet\<lparr>HardwareType := 1, ProtocolType := 0x0800, HardwareAddrLength := 6,
                      IPLength := 4, Operation := 2\<rparr>)"
    by (simp add: UnmarshalBinary_def Uint16_def)
  show ?thesis
    using UnmarshalBinary_eof_fields [OF short] UnmarshalBinary_eof_fields [OF header] short header
    by simp
qed

end
